theory Spec2Isabelle
  imports Complex_Main
begin

section \<open>The financial projection engine of the AI investment dashboard\<close>

text \<open>
  This theory embeds \<^verbatim>\<open>calculate_financials\<close> of
  \<^verbatim>\<open>use_case_dashboard_app.py\<close>. Python floats are modelled by the real numbers:
  every finite intermediate value is exact, so rounding and overflow are outside the
  model. What is kept of the float semantics are the two ways a division by zero ends:
  \<^item> a division between Python floats raises \<^verbatim>\<open>ZeroDivisionError\<close> (the discount
    division, whose operands are plain Python numbers);
  \<^item> a division whose operand is a \<^verbatim>\<open>numpy.float64\<close> (everything read back from the
    data frame: the column sums and the cumulative cash flows) follows IEEE 754 and yields
    an infinity or a NaN, with a warning and no exception.

  Where a property depends on rounding, the lines concerned are modelled a second time in
  binary64 arithmetic (the year-0 row, below).
\<close>

subsection \<open>Data model\<close>

record UseCaseTemplate =
  name :: string
  description :: string
  base_volume :: int
  base_value :: real
  process_cost :: real
  revenue_factor :: real
  savings_factor :: real
  default_revenue_lift :: real
  default_cost_savings :: real
  default_investment :: real
  default_maintenance_pct :: real
  impact_categories :: "string list"
  category_colors :: "string list"

text \<open>The first entry of \<^verbatim>\<open>USE_CASE_TEMPLATES\<close>, under the key \<^verbatim>\<open>order-management\<close>.\<close>

definition order_management :: UseCaseTemplate where
  "order_management =
     \<lparr> name = ''Order Management & Validation'',
       description = ''Improve order capture, validation, and exception handling for complex product configurations'',
       base_volume = 50000,
       base_value = 2500,
       process_cost = 85,
       revenue_factor = 0.65,
       savings_factor = 0.35,
       default_revenue_lift = 0.18,
       default_cost_savings = 0.25,
       default_investment = 500000,
       default_maintenance_pct = 0.20,
       impact_categories = [''Process Automation'', ''Error Reduction'', ''Cycle Time Improvement''],
       category_colors = [''#3B82F6'', ''#10B981'', ''#8B5CF6''] \<rparr>"

text \<open>One row of the data frame: the dictionary appended to \<^verbatim>\<open>years\<close>.\<close>

record year_record =
  year :: int
  investment_cost :: real
  maintenance_cost :: real
  revenue_lift :: real
  cost_savings :: real
  operational_benefit :: real
  net_cash_flow :: real
  cumulative_cf :: real
  discounted_cf :: real

datatype py_error = ZeroDivisionError

text \<open>A \<^verbatim>\<open>numpy.float64\<close> result: a finite number or one of the IEEE 754 specials.\<close>

datatype npfloat = Finite real | PosInf | NegInf | NaN

text \<open>A value of the \<^verbatim>\<open>payback\<close> entry: the string \<^verbatim>\<open>'N/A'\<close> or a number.\<close>

datatype pyval = Str string | Num npfloat

record metrics =
  npv :: real
  roi :: npfloat
  payback :: pyval
  total_benefits :: real
  total_costs :: real

subsection \<open>Arithmetic of the two float kinds\<close>

text \<open>Python's \<^verbatim>\<open>a / b\<close> on floats.\<close>

definition py_truediv :: "real \<Rightarrow> real \<Rightarrow> py_error + real" where
  "py_truediv a b = (if b = 0 then Inl ZeroDivisionError else Inr (a / b))"

text \<open>numpy's \<^verbatim>\<open>a / b\<close> on finite operands.\<close>

definition np_truediv :: "real \<Rightarrow> real \<Rightarrow> npfloat" where
  "np_truediv a b =
     (if b = 0 then (if 0 < a then PosInf else if a < 0 then NegInf else NaN)
      else Finite (a / b))"

text \<open>numpy's \<^verbatim>\<open>x * c\<close> and \<^verbatim>\<open>c + x\<close> for a finite Python number \<open>c\<close>.\<close>

fun np_mul :: "npfloat \<Rightarrow> real \<Rightarrow> npfloat" where
  "np_mul (Finite r) c = Finite (r * c)"
| "np_mul PosInf c = (if 0 < c then PosInf else if c < 0 then NegInf else NaN)"
| "np_mul NegInf c = (if 0 < c then NegInf else if c < 0 then PosInf else NaN)"
| "np_mul NaN c = NaN"

fun np_add :: "real \<Rightarrow> npfloat \<Rightarrow> npfloat" where
  "np_add c (Finite r) = Finite (c + r)"
| "np_add c PosInf = PosInf"
| "np_add c NegInf = NegInf"
| "np_add c NaN = NaN"

subsection \<open>The projection\<close>

text \<open>
  The two factors of a year after the implementation year: the adoption ramp and the
  linear growth of the benefit base.
\<close>

definition ramp_factor :: "int \<Rightarrow> real" where
  "ramp_factor yr = min (0.6 + (of_int yr * 0.15)) 1.0"

definition growth_factor :: "int \<Rightarrow> real" where
  "growth_factor yr = 1 + (0.03 * (of_int yr - 1))"

text \<open>
  The body of the loop \<^verbatim>\<open>for year in range(1, time_horizon + 1)\<close>. The state is the
  running \<^verbatim>\<open>cumulative_cf\<close> and the list \<^verbatim>\<open>years\<close>. The discount division is between
  Python floats and raises on a zero divisor.
\<close>

fun year_step ::
  "real \<Rightarrow> real \<Rightarrow> real \<Rightarrow> real \<Rightarrow> int \<Rightarrow> real \<times> year_record list
     \<Rightarrow> py_error + (real \<times> year_record list)" where
  "year_step revenue_lift_amount cost_savings_amount annual_maintenance discount_rate yr
       (cumulative, years) =
     (let year_revenue = revenue_lift_amount * ramp_factor yr * growth_factor yr;
          year_savings = cost_savings_amount * ramp_factor yr * growth_factor yr;
          total_benefit = year_revenue + year_savings;
          net_cf = total_benefit - annual_maintenance;
          cumulative' = cumulative + net_cf
      in (case py_truediv net_cf ((1 + discount_rate) ^ nat yr) of
            Inl e \<Rightarrow> Inl e
          | Inr discounted \<Rightarrow>
              Inr (cumulative',
                   years @ [\<lparr> year = yr,
                              investment_cost = 0,
                              maintenance_cost = annual_maintenance,
                              revenue_lift = year_revenue,
                              cost_savings = year_savings,
                              operational_benefit = total_benefit,
                              net_cash_flow = net_cf,
                              cumulative_cf = cumulative',
                              discounted_cf = discounted \<rparr>])))"

fun years_loop ::
  "real \<Rightarrow> real \<Rightarrow> real \<Rightarrow> real \<Rightarrow> int list \<Rightarrow> real \<times> year_record list
     \<Rightarrow> py_error + (real \<times> year_record list)" where
  "years_loop ra ca am dr [] st = Inr st"
| "years_loop ra ca am dr (yr # yrs) st =
     (case year_step ra ca am dr yr st of
        Inl e \<Rightarrow> Inl e
      | Inr st' \<Rightarrow> years_loop ra ca am dr yrs st')"

text \<open>
  The payback loop \<^verbatim>\<open>for idx, row in df.iterrows()\<close>, over the rows paired with their
  index. It leaves at the first row whose cumulative cash flow is positive (the
  \<^verbatim>\<open>break\<close>); \<^verbatim>\<open>df.loc[idx - 1, 'cumulative_cf']\<close> reads the row before it. The
  values read back from the data frame are \<^verbatim>\<open>numpy.float64\<close>, so the division is
  numpy's.
\<close>

fun payback_loop :: "year_record list \<Rightarrow> (nat \<times> year_record) list \<Rightarrow> pyval" where
  "payback_loop df [] = Str ''N/A''"
| "payback_loop df ((idx, row) # rest) =
     (if 0 < cumulative_cf row then
        (if idx = 0 then Num (Finite 0)
         else
           (let prev_cf = cumulative_cf (df ! (idx - 1));
                curr_cf = cumulative_cf row;
                year_fraction = np_truediv \<bar>prev_cf\<bar> (curr_cf - prev_cf)
            in Num (np_add (of_nat (idx - 1)) year_fraction)))
      else payback_loop df rest)"

text \<open>
  The parameters \<^verbatim>\<open>base_volume\<close>, \<^verbatim>\<open>base_value\<close> and \<^verbatim>\<open>process_cost\<close> carry a prime, and
  so do the locals that the metrics dictionary stores, since the unprimed names are the
  fields of the records above.
\<close>

definition calculate_financials ::
  "UseCaseTemplate \<Rightarrow> real \<Rightarrow> real \<Rightarrow> real \<Rightarrow> real \<Rightarrow> real \<Rightarrow> int \<Rightarrow> int \<Rightarrow> real \<Rightarrow> real
     \<Rightarrow> py_error + (year_record list \<times> metrics)" where
  "calculate_financials template initial_investment annual_maintenance_pct revenue_lift_pct
       cost_savings_pct discount_rate time_horizon base_volume' base_value' process_cost' =
     (let annual_maintenance = initial_investment * annual_maintenance_pct;
          revenue_lift_amount =
            of_int base_volume' * base_value' * revenue_factor template * revenue_lift_pct;
          cost_savings_amount =
            of_int base_volume' * process_cost' * savings_factor template * cost_savings_pct;
          year0_benefit = (revenue_lift_amount + cost_savings_amount) * 0.15;
          year0_net = year0_benefit - initial_investment
      in (case py_truediv year0_net ((1 + discount_rate) ^ 0) of
           Inl e \<Rightarrow> Inl e
         | Inr discounted0 \<Rightarrow>
      (case years_loop revenue_lift_amount cost_savings_amount annual_maintenance discount_rate
              [1..time_horizon]
              (year0_net,
               [\<lparr> year = 0,
                  investment_cost = initial_investment,
                  maintenance_cost = 0,
                  revenue_lift = revenue_lift_amount * 0.15,
                  cost_savings = cost_savings_amount * 0.15,
                  operational_benefit = year0_benefit,
                  net_cash_flow = year0_net,
                  cumulative_cf = year0_net,
                  discounted_cf = discounted0 \<rparr>]) of
           Inl e \<Rightarrow> Inl e
         | Inr (cumulative, df) \<Rightarrow>
             (let npv' = sum_list (map discounted_cf df);
                  total_benefits' = sum_list (map operational_benefit df);
                  total_costs' = initial_investment + (annual_maintenance * of_int time_horizon);
                  roi' = np_mul (np_truediv (total_benefits' - total_costs') total_costs') 100;
                  payback' = payback_loop df (enumerate 0 df)
              in Inr (df, \<lparr> npv = npv', roi = roi', payback = payback',
                            total_benefits = total_benefits', total_costs = total_costs' \<rparr>)))))"

text \<open>
  The domain of the parameters as the specification gives it: a positive horizon, a
  discount rate above \<open>-1\<close>, non-negative volumes and amounts, fractions in \<open>[0, 1]\<close>.
\<close>

definition valid_input ::
  "UseCaseTemplate \<Rightarrow> real \<Rightarrow> real \<Rightarrow> real \<Rightarrow> real \<Rightarrow> real \<Rightarrow> int \<Rightarrow> int \<Rightarrow> real \<Rightarrow> real \<Rightarrow> bool" where
  "valid_input template initial_investment annual_maintenance_pct revenue_lift_pct
       cost_savings_pct discount_rate time_horizon base_volume' base_value' process_cost' =
     (1 \<le> time_horizon \<and> - 1 < discount_rate \<and>
      0 \<le> base_volume' \<and> 0 \<le> base_value' \<and> 0 \<le> process_cost' \<and>
      0 \<le> initial_investment \<and>
      0 \<le> annual_maintenance_pct \<and> annual_maintenance_pct \<le> 1 \<and>
      0 \<le> revenue_lift_pct \<and> revenue_lift_pct \<le> 1 \<and>
      0 \<le> cost_savings_pct \<and> cost_savings_pct \<le> 1 \<and>
      0 \<le> revenue_factor template \<and> revenue_factor template \<le> 1 \<and>
      0 \<le> savings_factor template \<and> savings_factor template \<le> 1)"

subsection \<open>The year-0 row in binary64 arithmetic\<close>








section \<open>The loop over the years\<close>

text \<open>Running the loop over one more year is one more step after the shorter run.\<close>

lemma years_loop_snoc:
  "years_loop ra ca am dr (ys @ [y]) st =
     (case years_loop ra ca am dr ys st of
        Inl e \<Rightarrow> Inl e
      | Inr st' \<Rightarrow> year_step ra ca am dr y st')"
  by (induction ys arbitrary: st) (auto split: sum.splits)

lemma upto_Suc_snoc: "[1..int (Suc n)] = [1..int n] @ [int (Suc n)]"
  using upto_rec2 [of 1 "int (Suc n)"] by simp

lemma upto_nat: "[1..th] = [1..int (nat th)]"
  by (cases "0 \<le> th") simp_all

lemma year_step_ok:
  "1 + dr \<noteq> 0 \<Longrightarrow>
   year_step ra ca am dr yr (c, rows) =
     Inr (c + (ra * ramp_factor yr * growth_factor yr
               + ca * ramp_factor yr * growth_factor yr - am),
          rows @ [\<lparr> year = yr, investment_cost = 0, maintenance_cost = am,
                    revenue_lift = ra * ramp_factor yr * growth_factor yr,
                    cost_savings = ca * ramp_factor yr * growth_factor yr,
                    operational_benefit = ra * ramp_factor yr * growth_factor yr
                                          + ca * ramp_factor yr * growth_factor yr,
                    net_cash_flow = ra * ramp_factor yr * growth_factor yr
                                    + ca * ramp_factor yr * growth_factor yr - am,
                    cumulative_cf = c + (ra * ramp_factor yr * growth_factor yr
                                         + ca * ramp_factor yr * growth_factor yr - am),
                    discounted_cf = (ra * ramp_factor yr * growth_factor yr
                                     + ca * ramp_factor yr * growth_factor yr - am)
                                    / (1 + dr) ^ nat yr \<rparr>])"
  by (simp add: Let_def py_truediv_def)

lemma years_loop_rows:
  assumes dr: "1 + dr \<noteq> 0"
  shows "\<exists>df. years_loop ra ca am dr [1..int n] (cumulative_cf r0, [r0])
                 = Inr (cumulative_cf (last df), df)
           \<and> length df = Suc n \<and> df ! 0 = r0
           \<and> (\<forall>i. 1 \<le> i \<and> i \<le> n \<longrightarrow> df ! i =
                \<lparr> year = int i, investment_cost = 0, maintenance_cost = am,
                  revenue_lift = ra * ramp_factor (int i) * growth_factor (int i),
                  cost_savings = ca * ramp_factor (int i) * growth_factor (int i),
                  operational_benefit = ra * ramp_factor (int i) * growth_factor (int i)
                                        + ca * ramp_factor (int i) * growth_factor (int i),
                  net_cash_flow = ra * ramp_factor (int i) * growth_factor (int i)
                                  + ca * ramp_factor (int i) * growth_factor (int i) - am,
                  cumulative_cf = cumulative_cf (df ! (i - 1))
                                  + (ra * ramp_factor (int i) * growth_factor (int i)
                                     + ca * ramp_factor (int i) * growth_factor (int i) - am),
                  discounted_cf = (ra * ramp_factor (int i) * growth_factor (int i)
                                   + ca * ramp_factor (int i) * growth_factor (int i) - am)
                                  / (1 + dr) ^ i \<rparr>)"
    (is "\<exists>df. ?loop n df \<and> length df = Suc n \<and> df ! 0 = r0 \<and> (\<forall>i. 1 \<le> i \<and> i \<le> n \<longrightarrow> ?row df i)")
proof (induction n)
  case 0
  show ?case by (rule exI [of _ "[r0]"]) simp
next
  case (Suc n)
  then obtain df where loop: "?loop n df"
    and len: "length df = Suc n" and hd: "df ! 0 = r0"
    and rows: "\<forall>i. 1 \<le> i \<and> i \<le> n \<longrightarrow> ?row df i"
    by blast
  from len have ne: "df \<noteq> []" by auto
  have lastdf: "last df = df ! n" using len ne by (simp add: last_conv_nth)
  define r where "r = \<lparr> year = int (Suc n), investment_cost = 0, maintenance_cost = am,
      revenue_lift = ra * ramp_factor (int (Suc n)) * growth_factor (int (Suc n)),
      cost_savings = ca * ramp_factor (int (Suc n)) * growth_factor (int (Suc n)),
      operational_benefit = ra * ramp_factor (int (Suc n)) * growth_factor (int (Suc n))
                            + ca * ramp_factor (int (Suc n)) * growth_factor (int (Suc n)),
      net_cash_flow = ra * ramp_factor (int (Suc n)) * growth_factor (int (Suc n))
                      + ca * ramp_factor (int (Suc n)) * growth_factor (int (Suc n)) - am,
      cumulative_cf = cumulative_cf (df ! n)
                      + (ra * ramp_factor (int (Suc n)) * growth_factor (int (Suc n))
                         + ca * ramp_factor (int (Suc n)) * growth_factor (int (Suc n)) - am),
      discounted_cf = (ra * ramp_factor (int (Suc n)) * growth_factor (int (Suc n))
                       + ca * ramp_factor (int (Suc n)) * growth_factor (int (Suc n)) - am)
                      / (1 + dr) ^ Suc n \<rparr>"
  have step: "year_step ra ca am dr (int (Suc n)) (cumulative_cf (last df), df)
      = Inr (cumulative_cf r, df @ [r])"
    unfolding year_step_ok [OF dr] r_def lastdf nat_int by (simp del: of_nat_Suc)
  have "?loop (Suc n) (df @ [r])"
    by (simp only: upto_Suc_snoc years_loop_snoc loop step sum.case last_snoc)
  moreover have "length (df @ [r]) = Suc (Suc n)" using len by simp
  moreover have "(df @ [r]) ! 0 = r0" using hd ne by (simp add: nth_append)
  moreover have "\<forall>i. 1 \<le> i \<and> i \<le> Suc n \<longrightarrow> ?row (df @ [r]) i"
  proof (intro allI impI)
    fix i assume i: "1 \<le> i \<and> i \<le> Suc n"
    then have "i - 1 < length df" using len by arith
    then have prev: "(df @ [r]) ! (i - 1) = df ! (i - 1)"
      by (simp add: nth_append)
    show "?row (df @ [r]) i"
    proof (cases "i = Suc n")
      case True
      then show ?thesis unfolding prev using len by (simp add: nth_append r_def)
    next
      case False
      with i have "1 \<le> i \<and> i \<le> n" by simp
      then show ?thesis unfolding prev using rows len by (simp add: nth_append)
    qed
  qed
  ultimately show ?case by blast
qed

section \<open>The ledger and the metrics of a run\<close>

text \<open>
  With \<open>1 + discount_rate\<close> other than zero no division raises: the engine returns the
  ledger whose rows are given below, and the metrics computed from it.
\<close>

lemma calculate_financials_rows:
  assumes dr: "1 + dr \<noteq> 0"
    and ra: "ra = of_int bv * bval * revenue_factor t * rlp"
    and ca: "ca = of_int bv * pc * savings_factor t * csp"
    and am: "am = ii * amp"
  shows "\<exists>df. calculate_financials t ii amp rlp csp dr th bv bval pc =
            Inr (df, \<lparr> npv = sum_list (map discounted_cf df),
                       roi = np_mul (np_truediv (sum_list (map operational_benefit df)
                                                  - (ii + am * of_int th))
                                                (ii + am * of_int th)) 100,
                       payback = payback_loop df (enumerate 0 df),
                       total_benefits = sum_list (map operational_benefit df),
                       total_costs = ii + am * of_int th \<rparr>)
          \<and> length df = Suc (nat th)
          \<and> df ! 0 = \<lparr> year = 0, investment_cost = ii, maintenance_cost = 0,
                        revenue_lift = ra * 0.15, cost_savings = ca * 0.15,
                        operational_benefit = (ra + ca) * 0.15,
                        net_cash_flow = (ra + ca) * 0.15 - ii,
                        cumulative_cf = (ra + ca) * 0.15 - ii,
                        discounted_cf = (ra + ca) * 0.15 - ii \<rparr>
          \<and> (\<forall>i. 1 \<le> i \<and> i \<le> nat th \<longrightarrow> df ! i =
                \<lparr> year = int i, investment_cost = 0, maintenance_cost = am,
                  revenue_lift = ra * ramp_factor (int i) * growth_factor (int i),
                  cost_savings = ca * ramp_factor (int i) * growth_factor (int i),
                  operational_benefit = ra * ramp_factor (int i) * growth_factor (int i)
                                        + ca * ramp_factor (int i) * growth_factor (int i),
                  net_cash_flow = ra * ramp_factor (int i) * growth_factor (int i)
                                  + ca * ramp_factor (int i) * growth_factor (int i) - am,
                  cumulative_cf = cumulative_cf (df ! (i - 1))
                                  + (ra * ramp_factor (int i) * growth_factor (int i)
                                     + ca * ramp_factor (int i) * growth_factor (int i) - am),
                  discounted_cf = (ra * ramp_factor (int i) * growth_factor (int i)
                                   + ca * ramp_factor (int i) * growth_factor (int i) - am)
                                  / (1 + dr) ^ i \<rparr>)"
proof -
  define r0 where "r0 = \<lparr> year = 0, investment_cost = ii, maintenance_cost = 0,
                        revenue_lift = ra * 0.15, cost_savings = ca * 0.15,
                        operational_benefit = (ra + ca) * 0.15,
                        net_cash_flow = (ra + ca) * 0.15 - ii,
                        cumulative_cf = (ra + ca) * 0.15 - ii,
                        discounted_cf = (ra + ca) * 0.15 - ii \<rparr>"
  have c0: "cumulative_cf r0 = (ra + ca) * 0.15 - ii" by (simp add: r0_def)
  from years_loop_rows [OF dr, of ra ca am "nat th" r0]
  obtain df where loop: "years_loop ra ca am dr [1..int (nat th)] (cumulative_cf r0, [r0])
                 = Inr (cumulative_cf (last df), df)"
    and rest: "length df = Suc (nat th)" "df ! 0 = r0"
       "\<forall>i. 1 \<le> i \<and> i \<le> nat th \<longrightarrow> df ! i =
                \<lparr> year = int i, investment_cost = 0, maintenance_cost = am,
                  revenue_lift = ra * ramp_factor (int i) * growth_factor (int i),
                  cost_savings = ca * ramp_factor (int i) * growth_factor (int i),
                  operational_benefit = ra * ramp_factor (int i) * growth_factor (int i)
                                        + ca * ramp_factor (int i) * growth_factor (int i),
                  net_cash_flow = ra * ramp_factor (int i) * growth_factor (int i)
                                  + ca * ramp_factor (int i) * growth_factor (int i) - am,
                  cumulative_cf = cumulative_cf (df ! (i - 1))
                                  + (ra * ramp_factor (int i) * growth_factor (int i)
                                     + ca * ramp_factor (int i) * growth_factor (int i) - am),
                  discounted_cf = (ra * ramp_factor (int i) * growth_factor (int i)
                                   + ca * ramp_factor (int i) * growth_factor (int i) - am)
                                  / (1 + dr) ^ i \<rparr>"
    by blast
  have loop': "years_loop ra ca am dr [1..th] ((ra + ca) * 0.15 - ii, [r0])
                 = Inr (cumulative_cf (last df), df)"
    using loop unfolding c0 upto_nat [of th, symmetric] .
  have "calculate_financials t ii amp rlp csp dr th bv bval pc =
            Inr (df, \<lparr> npv = sum_list (map discounted_cf df),
                       roi = np_mul (np_truediv (sum_list (map operational_benefit df)
                                                  - (ii + am * of_int th))
                                                (ii + am * of_int th)) 100,
                       payback = payback_loop df (enumerate 0 df),
                       total_benefits = sum_list (map operational_benefit df),
                       total_costs = ii + am * of_int th \<rparr>)"
    unfolding calculate_financials_def Let_def ra [symmetric] ca [symmetric] am [symmetric]
    using loop' by (simp add: py_truediv_def r0_def)
  with rest show ?thesis unfolding r0_def by blast
qed

text \<open>
  The error branch is live: at \<open>discount_rate = - 1\<close> the divisor of year 1 is zero and
  the engine raises, which is why the valid inputs keep the discount rate above \<open>- 1\<close>.
\<close>

lemma calculate_financials_zero_divisor:
  assumes "1 \<le> th"
  shows "calculate_financials t ii amp rlp csp (- 1) th bv bval pc = Inl ZeroDivisionError"
proof -
  from assms have "[1..th] = 1 # [2..th]" by (simp add: upto_rec1)
  then show ?thesis
    by (simp add: calculate_financials_def Let_def py_truediv_def)
qed

section \<open>The payback loop\<close>

text \<open>
  The loop answers with the string when no cumulative cash flow is positive, and at the
  first positive one otherwise; there the row before is not positive, so the divisor of
  the interpolation is positive and the quotient finite.
\<close>

lemma payback_loop_none:
  "(\<forall>r \<in> set xs. cumulative_cf r \<le> 0) \<Longrightarrow> payback_loop df (enumerate k xs) = Str ''N/A''"
  by (induction xs arbitrary: k) auto

lemma payback_loop_first:
  "i < length xs \<Longrightarrow> 0 < cumulative_cf (xs ! i) \<Longrightarrow> (\<forall>j<i. cumulative_cf (xs ! j) \<le> 0) \<Longrightarrow>
   payback_loop df (enumerate k xs) =
     (if k + i = 0 then Num (Finite 0)
      else Num (np_add (of_nat (k + i - 1))
                  (np_truediv \<bar>cumulative_cf (df ! (k + i - 1))\<bar>
                     (cumulative_cf (xs ! i) - cumulative_cf (df ! (k + i - 1))))))"
proof (induction xs arbitrary: k i)
  case Nil
  then show ?case by simp
next
  case (Cons x xs)
  show ?case
  proof (cases i)
    case 0
    with Cons.prems show ?thesis by (simp add: Let_def)
  next
    case (Suc i')
    from Cons.prems Suc have x: "\<not> 0 < cumulative_cf x" by (auto simp: not_less)
    from Cons.prems Suc have
      "i' < length xs" "0 < cumulative_cf (xs ! i')" "\<forall>j<i'. cumulative_cf (xs ! j) \<le> 0"
      by auto
    from Cons.IH [OF this, of "Suc k"] x Suc show ?thesis by simp
  qed
qed

lemma payback_first_positive:
  assumes "y < length df" "0 < cumulative_cf (df ! y)" "\<forall>j<y. cumulative_cf (df ! j) \<le> 0"
  shows "payback_loop df (enumerate 0 df) =
     (if y = 0 then Num (Finite 0)
      else Num (Finite (of_nat (y - 1)
                  + \<bar>cumulative_cf (df ! (y - 1))\<bar>
                     / (cumulative_cf (df ! y) - cumulative_cf (df ! (y - 1))))))"
proof (cases "y = 0")
  case True
  with payback_loop_first [OF assms, of df 0] show ?thesis by simp
next
  case False
  with assms have "cumulative_cf (df ! (y - 1)) \<le> 0" by simp
  with assms(2) have "cumulative_cf (df ! y) - cumulative_cf (df ! (y - 1)) \<noteq> 0" by simp
  with payback_loop_first [OF assms, of df 0] False show ?thesis
    by (simp add: np_truediv_def)
qed

section \<open>Properties of the engine\<close>

lemma valid_input_discount: "valid_input t ii amp rlp csp dr th bv bval pc \<Longrightarrow> 1 + dr \<noteq> 0"
  by (simp add: valid_input_def)

lemma map_year_upto:
  assumes len: "length df = Suc (nat th)" and y: "\<forall>i. i \<le> nat th \<longrightarrow> year (df ! i) = int i"
    and th: "0 \<le> th"
  shows "map year df = [0..th]"
proof (rule nth_equalityI)
  show "length (map year df) = length [0..th]" using len th by simp
next
  fix i assume "i < length (map year df)"
  then have i: "i \<le> nat th" using len by simp
  then have "[0..th] ! i = 0 + int i" using th by (intro nth_upto) linarith
  with i y len show "map year df ! i = [0..th] ! i" by simp
qed

text \<open>
  Claim C8. For every valid input the engine returns a ledger of exactly
  \<open>time_horizon + 1\<close> records, whose year indices are \<open>0, 1, ..., time_horizon\<close> in this order.
\<close>

theorem ledger_length:
  assumes valid: "valid_input template initial_investment annual_maintenance_pct revenue_lift_pct
                    cost_savings_pct discount_rate time_horizon base_volume' base_value' process_cost'"
  shows "\<exists>df m. calculate_financials template initial_investment annual_maintenance_pct
                   revenue_lift_pct cost_savings_pct discount_rate time_horizon
                   base_volume' base_value' process_cost' = Inr (df, m)
               \<and> int (length df) = time_horizon + 1
               \<and> map year df = [0..time_horizon]"
proof -
  from valid have th: "1 \<le> time_horizon" by (simp add: valid_input_def)
  from calculate_financials_rows [OF valid_input_discount [OF valid] refl refl refl,
        where th = time_horizon]
  obtain df m where run: "calculate_financials template initial_investment annual_maintenance_pct
                   revenue_lift_pct cost_savings_pct discount_rate time_horizon
                   base_volume' base_value' process_cost' = Inr (df, m)"
    and len: "length df = Suc (nat time_horizon)"
    and y0: "year (df ! 0) = 0"
    and ys: "\<forall>i. 1 \<le> i \<and> i \<le> nat time_horizon \<longrightarrow> year (df ! i) = int i"
    by (metis (no_types, lifting) year_record.select_convs(1))
  have "\<forall>i. i \<le> nat time_horizon \<longrightarrow> year (df ! i) = int i"
  proof (intro allI impI)
    fix i assume "i \<le> nat time_horizon"
    then show "year (df ! i) = int i" using y0 ys by (cases "i = 0") simp_all
  qed
  from map_year_upto [OF len this] th have "map year df = [0..time_horizon]" by simp
  moreover from len th have "int (length df) = time_horizon + 1" by simp
  ultimately show ?thesis using run by blast
qed

theorem ledger_length_witness:
  "valid_input order_management 500000 0.20 0.18 0.25 0.08 5 50000 2500 85
   \<and> (\<exists>df m. calculate_financials order_management 500000 0.20 0.18 0.25 0.08 5 50000 2500 85
                = Inr (df, m)
              \<and> int (length df) = 6 \<and> map year df = [0, 1, 2, 3, 4, 5])"
proof -
  have v: "valid_input order_management 500000 0.20 0.18 0.25 0.08 5 50000 2500 85"
    by (simp add: valid_input_def order_management_def)
  have "[0..5::int] = [0, 1, 2, 3, 4, 5]" by (simp add: upto.simps)
  with ledger_length [OF v] v show ?thesis by simp
qed

lemma sum_list_column:
  "length df = Suc n \<Longrightarrow> sum_list (map f df) = (\<Sum>y = 0..n. f (df ! y))"
  by (simp add: sum_list_sum_nth atLeastLessThanSuc_atLeastAtMost del: sum.cl_ivl_Suc)

text \<open>
  Claim C1. For every valid input and every year \<open>y\<close> with \<open>1 \<le> y \<le> time_horizon\<close>, the
  record of year \<open>y\<close> has the revenue lift and the cost savings equal to their steady-state
  amounts times the ramp factor \<open>min (0.6 + 0.15 * y) 1.0\<close> and the growth factor
  \<open>1 + 0.03 * (y - 1)\<close>, the operational benefit equal to their sum, the net cash flow
  equal to the benefit less the annual maintenance, and the discounted cash flow equal to
  the net cash flow over \<open>(1 + discount_rate) ^ y\<close>.
\<close>

theorem ledger_year_record:
  assumes valid: "valid_input template initial_investment annual_maintenance_pct revenue_lift_pct
                    cost_savings_pct discount_rate time_horizon base_volume' base_value' process_cost'"
    and rla: "revenue_lift_amount =
                of_int base_volume' * base_value' * revenue_factor template * revenue_lift_pct"
    and csa: "cost_savings_amount =
                of_int base_volume' * process_cost' * savings_factor template * cost_savings_pct"
    and am: "annual_maintenance = initial_investment * annual_maintenance_pct"
  shows "\<exists>df m. calculate_financials template initial_investment annual_maintenance_pct
                   revenue_lift_pct cost_savings_pct discount_rate time_horizon
                   base_volume' base_value' process_cost' = Inr (df, m)
           \<and> (\<forall>y. 1 \<le> y \<and> y \<le> time_horizon \<longrightarrow>
                  year (df ! nat y) = y
                \<and> revenue_lift (df ! nat y) =
                    revenue_lift_amount * min (0.6 + 0.15 * of_int y) 1.0
                      * (1 + 0.03 * (of_int y - 1))
                \<and> cost_savings (df ! nat y) =
                    cost_savings_amount * min (0.6 + 0.15 * of_int y) 1.0
                      * (1 + 0.03 * (of_int y - 1))
                \<and> operational_benefit (df ! nat y) =
                    revenue_lift (df ! nat y) + cost_savings (df ! nat y)
                \<and> net_cash_flow (df ! nat y) =
                    operational_benefit (df ! nat y) - annual_maintenance
                \<and> discounted_cf (df ! nat y) =
                    net_cash_flow (df ! nat y) / (1 + discount_rate) ^ nat y)"
proof -
  from calculate_financials_rows [OF valid_input_discount [OF valid] rla csa am,
        where th = time_horizon]
  obtain df m where run: "calculate_financials template initial_investment annual_maintenance_pct
                   revenue_lift_pct cost_savings_pct discount_rate time_horizon
                   base_volume' base_value' process_cost' = Inr (df, m)"
    and rows: "\<forall>i. 1 \<le> i \<and> i \<le> nat time_horizon \<longrightarrow> df ! i =
                \<lparr> year = int i, investment_cost = 0, maintenance_cost = annual_maintenance,
                  revenue_lift = revenue_lift_amount * ramp_factor (int i) * growth_factor (int i),
                  cost_savings = cost_savings_amount * ramp_factor (int i) * growth_factor (int i),
                  operational_benefit =
                    revenue_lift_amount * ramp_factor (int i) * growth_factor (int i)
                    + cost_savings_amount * ramp_factor (int i) * growth_factor (int i),
                  net_cash_flow =
                    revenue_lift_amount * ramp_factor (int i) * growth_factor (int i)
                    + cost_savings_amount * ramp_factor (int i) * growth_factor (int i)
                    - annual_maintenance,
                  cumulative_cf = cumulative_cf (df ! (i - 1))
                    + (revenue_lift_amount * ramp_factor (int i) * growth_factor (int i)
                       + cost_savings_amount * ramp_factor (int i) * growth_factor (int i)
                       - annual_maintenance),
                  discounted_cf =
                    (revenue_lift_amount * ramp_factor (int i) * growth_factor (int i)
                     + cost_savings_amount * ramp_factor (int i) * growth_factor (int i)
                     - annual_maintenance) / (1 + discount_rate) ^ i \<rparr>"
    by blast
  have "year (df ! nat y) = y
      \<and> revenue_lift (df ! nat y) =
          revenue_lift_amount * min (0.6 + 0.15 * of_int y) 1.0 * (1 + 0.03 * (of_int y - 1))
      \<and> cost_savings (df ! nat y) =
          cost_savings_amount * min (0.6 + 0.15 * of_int y) 1.0 * (1 + 0.03 * (of_int y - 1))
      \<and> operational_benefit (df ! nat y) = revenue_lift (df ! nat y) + cost_savings (df ! nat y)
      \<and> net_cash_flow (df ! nat y) = operational_benefit (df ! nat y) - annual_maintenance
      \<and> discounted_cf (df ! nat y) = net_cash_flow (df ! nat y) / (1 + discount_rate) ^ nat y"
    if y: "1 \<le> y \<and> y \<le> time_horizon" for y
  proof -
    from y have "1 \<le> nat y \<and> nat y \<le> nat time_horizon" by arith
    with rows have row: "df ! nat y =
                \<lparr> year = int (nat y), investment_cost = 0, maintenance_cost = annual_maintenance,
                  revenue_lift = revenue_lift_amount * ramp_factor (int (nat y)) * growth_factor (int (nat y)),
                  cost_savings = cost_savings_amount * ramp_factor (int (nat y)) * growth_factor (int (nat y)),
                  operational_benefit =
                    revenue_lift_amount * ramp_factor (int (nat y)) * growth_factor (int (nat y))
                    + cost_savings_amount * ramp_factor (int (nat y)) * growth_factor (int (nat y)),
                  net_cash_flow =
                    revenue_lift_amount * ramp_factor (int (nat y)) * growth_factor (int (nat y))
                    + cost_savings_amount * ramp_factor (int (nat y)) * growth_factor (int (nat y))
                    - annual_maintenance,
                  cumulative_cf = cumulative_cf (df ! (nat y - 1))
                    + (revenue_lift_amount * ramp_factor (int (nat y)) * growth_factor (int (nat y))
                       + cost_savings_amount * ramp_factor (int (nat y)) * growth_factor (int (nat y))
                       - annual_maintenance),
                  discounted_cf =
                    (revenue_lift_amount * ramp_factor (int (nat y)) * growth_factor (int (nat y))
                     + cost_savings_amount * ramp_factor (int (nat y)) * growth_factor (int (nat y))
                     - annual_maintenance) / (1 + discount_rate) ^ nat y \<rparr>"
      by blast
    from y have iy: "int (nat y) = y" by simp
    show ?thesis unfolding row iy
      by (simp add: ramp_factor_def growth_factor_def mult.commute)
  qed
  with run show ?thesis by blast
qed

theorem ledger_year_record_witness:
  "valid_input order_management 500000 0.20 0.18 0.25 0.08 5 50000 2500 85
   \<and> (\<exists>df m. calculate_financials order_management 500000 0.20 0.18 0.25 0.08 5 50000 2500 85
                = Inr (df, m)
              \<and> year (df ! 3) = 3
              \<and> revenue_lift (df ! 3) = 15502500
              \<and> cost_savings (df ! 3) = 788375 / 2
              \<and> operational_benefit (df ! 3) = 31793375 / 2
              \<and> net_cash_flow (df ! 3) = 31593375 / 2
              \<and> discounted_cf (df ! 3) = 18283203125 / 1458)"
proof -
  have v: "valid_input order_management 500000 0.20 0.18 0.25 0.08 5 50000 2500 85"
    by (simp add: valid_input_def order_management_def)
  from ledger_year_record [OF v refl refl refl]
  obtain df m where run: "calculate_financials order_management 500000 0.20 0.18 0.25 0.08 5 50000 2500 85
                = Inr (df, m)"
    and rows: "\<forall>y. 1 \<le> y \<and> y \<le> 5 \<longrightarrow>
                  year (df ! nat y) = y
                \<and> revenue_lift (df ! nat y) =
                    (of_int 50000 * 2500 * revenue_factor order_management * 0.18)
                      * min (0.6 + 0.15 * of_int y) 1.0 * (1 + 0.03 * (of_int y - 1))
                \<and> cost_savings (df ! nat y) =
                    (of_int 50000 * 85 * savings_factor order_management * 0.25)
                      * min (0.6 + 0.15 * of_int y) 1.0 * (1 + 0.03 * (of_int y - 1))
                \<and> operational_benefit (df ! nat y) =
                    revenue_lift (df ! nat y) + cost_savings (df ! nat y)
                \<and> net_cash_flow (df ! nat y) =
                    operational_benefit (df ! nat y) - 500000 * 0.20
                \<and> discounted_cf (df ! nat y) =
                    net_cash_flow (df ! nat y) / (1 + 0.08) ^ nat y"
    by blast
  from rows [rule_format, of 3] have
    "year (df ! 3) = 3
              \<and> revenue_lift (df ! 3) = 15502500
              \<and> cost_savings (df ! 3) = 788375 / 2
              \<and> operational_benefit (df ! 3) = 31793375 / 2
              \<and> net_cash_flow (df ! 3) = 31593375 / 2
              \<and> discounted_cf (df ! 3) = 18283203125 / 1458"
    by (auto simp: order_management_def power3_eq_cube)
  with run v show ?thesis by blast
qed

text \<open>
  Claim C2. For every valid input the year-0 record charges the whole initial investment
  and no maintenance, realises 15% of each steady-state amount, has the net cash flow
  \<open>0.15 * (revenue_lift_amount + cost_savings_amount) - initial_investment\<close>, and its
  discounted cash flow equals its net cash flow. For the order-management scenario the
  year-0 net cash flow is
  \<open>0.15 * (50000 * 2500 * 0.65 * 0.18 + 50000 * 85 * 0.35 * 0.25) - 500000\<close>.
\<close>

theorem year0_record:
  assumes valid: "valid_input template initial_investment annual_maintenance_pct revenue_lift_pct
                    cost_savings_pct discount_rate time_horizon base_volume' base_value' process_cost'"
    and rla: "revenue_lift_amount =
                of_int base_volume' * base_value' * revenue_factor template * revenue_lift_pct"
    and csa: "cost_savings_amount =
                of_int base_volume' * process_cost' * savings_factor template * cost_savings_pct"
  shows "(\<exists>df m. calculate_financials template initial_investment annual_maintenance_pct
                   revenue_lift_pct cost_savings_pct discount_rate time_horizon
                   base_volume' base_value' process_cost' = Inr (df, m)
            \<and> year (df ! 0) = 0
            \<and> investment_cost (df ! 0) = initial_investment
            \<and> maintenance_cost (df ! 0) = 0
            \<and> revenue_lift (df ! 0) = 0.15 * revenue_lift_amount
            \<and> cost_savings (df ! 0) = 0.15 * cost_savings_amount
            \<and> net_cash_flow (df ! 0) =
                0.15 * (revenue_lift_amount + cost_savings_amount) - initial_investment
            \<and> discounted_cf (df ! 0) = net_cash_flow (df ! 0))
       \<and> (\<exists>df m. calculate_financials order_management 500000 0.20 0.18 0.25 0.08 5
                     50000 2500 85 = Inr (df, m)
            \<and> net_cash_flow (df ! 0) =
                0.15 * (50000 * 2500 * 0.65 * 0.18 + 50000 * 85 * 0.35 * 0.25) - 500000)"
proof -
  have general: "\<exists>df m. calculate_financials t ii amp rlp csp dr th bv bval pc = Inr (df, m)
            \<and> year (df ! 0) = 0
            \<and> investment_cost (df ! 0) = ii
            \<and> maintenance_cost (df ! 0) = 0
            \<and> revenue_lift (df ! 0) = 0.15 * (of_int bv * bval * revenue_factor t * rlp)
            \<and> cost_savings (df ! 0) = 0.15 * (of_int bv * pc * savings_factor t * csp)
            \<and> net_cash_flow (df ! 0) =
                0.15 * (of_int bv * bval * revenue_factor t * rlp
                        + of_int bv * pc * savings_factor t * csp) - ii
            \<and> discounted_cf (df ! 0) = net_cash_flow (df ! 0)"
    if v: "valid_input t ii amp rlp csp dr th bv bval pc"
    for t ii amp rlp csp dr th bv bval pc
  proof -
    from calculate_financials_rows [OF valid_input_discount [OF v] refl refl refl,
          where th = th]
    obtain df m where run: "calculate_financials t ii amp rlp csp dr th bv bval pc = Inr (df, m)"
      and r0: "df ! 0 = \<lparr> year = 0, investment_cost = ii, maintenance_cost = 0,
                        revenue_lift = (of_int bv * bval * revenue_factor t * rlp) * 0.15,
                        cost_savings = (of_int bv * pc * savings_factor t * csp) * 0.15,
                        operational_benefit =
                          (of_int bv * bval * revenue_factor t * rlp
                           + of_int bv * pc * savings_factor t * csp) * 0.15,
                        net_cash_flow =
                          (of_int bv * bval * revenue_factor t * rlp
                           + of_int bv * pc * savings_factor t * csp) * 0.15 - ii,
                        cumulative_cf =
                          (of_int bv * bval * revenue_factor t * rlp
                           + of_int bv * pc * savings_factor t * csp) * 0.15 - ii,
                        discounted_cf =
                          (of_int bv * bval * revenue_factor t * rlp
                           + of_int bv * pc * savings_factor t * csp) * 0.15 - ii \<rparr>"
      by blast
    show ?thesis
      by (rule exI [of _ df], rule exI [of _ m]) (simp add: run r0)
  qed
  have v: "valid_input order_management 500000 0.20 0.18 0.25 0.08 5 50000 2500 85"
    by (simp add: valid_input_def order_management_def)
  from general [OF v] have "\<exists>df m. calculate_financials order_management 500000 0.20 0.18 0.25 0.08 5
                     50000 2500 85 = Inr (df, m)
            \<and> net_cash_flow (df ! 0) =
                0.15 * (50000 * 2500 * 0.65 * 0.18 + 50000 * 85 * 0.35 * 0.25) - 500000"
    by (auto simp: order_management_def)
  with general [OF valid] show ?thesis unfolding rla csa by blast
qed

theorem year0_record_witness:
  "valid_input order_management 500000 0.20 0.18 0.25 0.08 5 50000 2500 85
   \<and> (\<exists>df m. calculate_financials order_management 500000 0.20 0.18 0.25 0.08 5 50000 2500 85
                = Inr (df, m)
              \<and> investment_cost (df ! 0) = 500000
              \<and> maintenance_cost (df ! 0) = 0
              \<and> revenue_lift (df ! 0) = 2193750
              \<and> cost_savings (df ! 0) = 223125 / 4
              \<and> net_cash_flow (df ! 0) = 6998125 / 4
              \<and> discounted_cf (df ! 0) = 6998125 / 4)"
proof -
  have v: "valid_input order_management 500000 0.20 0.18 0.25 0.08 5 50000 2500 85"
    by (simp add: valid_input_def order_management_def)
  from year0_record [OF v refl refl, THEN conjunct1] v show ?thesis
    by (auto simp: order_management_def)
qed























text \<open>
  Claim C7. For every valid input the net present value is the sum of the discounted cash
  flows of the years \<open>0..time_horizon\<close>; at a discount rate of zero it is the sum of the
  undiscounted net cash flows.
\<close>

theorem npv_is_sum:
  assumes valid: "valid_input template initial_investment annual_maintenance_pct revenue_lift_pct
                    cost_savings_pct discount_rate time_horizon base_volume' base_value' process_cost'"
  shows "\<exists>df m. calculate_financials template initial_investment annual_maintenance_pct
                   revenue_lift_pct cost_savings_pct discount_rate time_horizon
                   base_volume' base_value' process_cost' = Inr (df, m)
           \<and> npv m = (\<Sum>y = 0..nat time_horizon. discounted_cf (df ! y))
           \<and> (discount_rate = 0 \<longrightarrow>
                npv m = (\<Sum>y = 0..nat time_horizon. net_cash_flow (df ! y)))"
proof -
  let ?ra = "of_int base_volume' * base_value' * revenue_factor template * revenue_lift_pct"
  let ?ca = "of_int base_volume' * process_cost' * savings_factor template * cost_savings_pct"
  let ?am = "initial_investment * annual_maintenance_pct"
  from calculate_financials_rows [OF valid_input_discount [OF valid] refl refl refl,
        where th = time_horizon]
  obtain df m where run: "calculate_financials template initial_investment annual_maintenance_pct
                   revenue_lift_pct cost_savings_pct discount_rate time_horizon
                   base_volume' base_value' process_cost' = Inr (df, m)"
    and m: "m = \<lparr> npv = sum_list (map discounted_cf df),
                   roi = np_mul (np_truediv (sum_list (map operational_benefit df)
                                              - (initial_investment + ?am * of_int time_horizon))
                                            (initial_investment + ?am * of_int time_horizon)) 100,
                   payback = payback_loop df (enumerate 0 df),
                   total_benefits = sum_list (map operational_benefit df),
                   total_costs = initial_investment + ?am * of_int time_horizon \<rparr>"
    and len: "length df = Suc (nat time_horizon)"
    and r0: "df ! 0 = \<lparr> year = 0, investment_cost = initial_investment, maintenance_cost = 0,
                        revenue_lift = ?ra * 0.15, cost_savings = ?ca * 0.15,
                        operational_benefit = (?ra + ?ca) * 0.15,
                        net_cash_flow = (?ra + ?ca) * 0.15 - initial_investment,
                        cumulative_cf = (?ra + ?ca) * 0.15 - initial_investment,
                        discounted_cf = (?ra + ?ca) * 0.15 - initial_investment \<rparr>"
    and rows: "\<forall>i. 1 \<le> i \<and> i \<le> nat time_horizon \<longrightarrow> df ! i =
                \<lparr> year = int i, investment_cost = 0, maintenance_cost = ?am,
                  revenue_lift = ?ra * ramp_factor (int i) * growth_factor (int i),
                  cost_savings = ?ca * ramp_factor (int i) * growth_factor (int i),
                  operational_benefit = ?ra * ramp_factor (int i) * growth_factor (int i)
                                        + ?ca * ramp_factor (int i) * growth_factor (int i),
                  net_cash_flow = ?ra * ramp_factor (int i) * growth_factor (int i)
                                  + ?ca * ramp_factor (int i) * growth_factor (int i) - ?am,
                  cumulative_cf = cumulative_cf (df ! (i - 1))
                                  + (?ra * ramp_factor (int i) * growth_factor (int i)
                                     + ?ca * ramp_factor (int i) * growth_factor (int i) - ?am),
                  discounted_cf = (?ra * ramp_factor (int i) * growth_factor (int i)
                                   + ?ca * ramp_factor (int i) * growth_factor (int i) - ?am)
                                  / (1 + discount_rate) ^ i \<rparr>"
    by blast
  have npv: "npv m = (\<Sum>y = 0..nat time_horizon. discounted_cf (df ! y))"
    unfolding m using sum_list_column [OF len, of discounted_cf] by simp
  have "npv m = (\<Sum>y = 0..nat time_horizon. net_cash_flow (df ! y))" if zero: "discount_rate = 0"
  proof -
    have "discounted_cf (df ! y) = net_cash_flow (df ! y)" if "y \<in> {0..nat time_horizon}" for y
    proof (cases "y = 0")
      case True
      then show ?thesis by (simp add: r0)
    next
      case False
      with that have "1 \<le> y \<and> y \<le> nat time_horizon" by simp
      with rows zero show ?thesis by simp
    qed
    then have "(\<Sum>y = 0..nat time_horizon. discounted_cf (df ! y))
                 = (\<Sum>y = 0..nat time_horizon. net_cash_flow (df ! y))"
      by (rule sum.cong [OF refl])
    with npv show ?thesis by simp
  qed
  with run npv show ?thesis by blast
qed

theorem npv_is_sum_witness:
  "valid_input order_management 500000 0.20 0.18 0.25 0 3 50000 2500 85
   \<and> (\<exists>df m. calculate_financials order_management 500000 0.20 0.18 0.25 0 3 50000 2500 85
                = Inr (df, m)
              \<and> npv m = discounted_cf (df ! 0) + discounted_cf (df ! 1)
                          + discounted_cf (df ! 2) + discounted_cf (df ! 3)
              \<and> npv m = net_cash_flow (df ! 0) + net_cash_flow (df ! 1)
                          + net_cash_flow (df ! 2) + net_cash_flow (df ! 3))"
proof -
  have v: "valid_input order_management 500000 0.20 0.18 0.25 0 3 50000 2500 85"
    by (simp add: valid_input_def order_management_def)
  have e: "(\<Sum>y = 0..nat 3. f y) = f 0 + f 1 + f 2 + f 3" for f :: "nat \<Rightarrow> real"
    by (simp add: numeral_3_eq_3 numeral_2_eq_2)
  from npv_is_sum [OF v] v show ?thesis
    unfolding e by simp
qed

lemma ramp_factor_nonneg: "0 \<le> yr \<Longrightarrow> 0 \<le> ramp_factor yr"
  by (simp add: ramp_factor_def)

lemma growth_factor_nonneg: "1 \<le> yr \<Longrightarrow> 0 \<le> growth_factor yr"
  by (simp add: growth_factor_def)

lemma amounts_nonneg:
  assumes "valid_input t ii amp rlp csp dr th bv bval pc"
  shows "0 \<le> of_int bv * bval * revenue_factor t * rlp"
    and "0 \<le> of_int bv * pc * savings_factor t * csp"
  using assms by (simp_all add: valid_input_def)

text \<open>
  Claim C4, as amended. For every valid input the total benefits are the sum of the
  operational benefits of the years \<open>0..time_horizon\<close>, the total costs are
  \<open>initial_investment + annual_maintenance * time_horizon\<close>, and with total costs other than
  zero the return on investment is \<open>(total_benefits - total_costs) / total_costs * 100\<close>.
  With total costs of zero the engine has no guard and no fallback value: the dividend is
  a \<^verbatim>\<open>numpy.float64\<close>, so the division raises nothing and the return on investment is
  what it yields, an infinity when the benefits are positive and a NaN when they are zero.
\<close>

theorem roi_metrics:
  assumes valid: "valid_input template initial_investment annual_maintenance_pct revenue_lift_pct
                    cost_savings_pct discount_rate time_horizon base_volume' base_value' process_cost'"
    and am: "annual_maintenance = initial_investment * annual_maintenance_pct"
  shows "\<exists>df m. calculate_financials template initial_investment annual_maintenance_pct
                   revenue_lift_pct cost_savings_pct discount_rate time_horizon
                   base_volume' base_value' process_cost' = Inr (df, m)
           \<and> total_benefits m = (\<Sum>y = 0..nat time_horizon. operational_benefit (df ! y))
           \<and> total_costs m = initial_investment + annual_maintenance * of_int time_horizon
           \<and> (total_costs m \<noteq> 0 \<longrightarrow>
                roi m = Finite ((total_benefits m - total_costs m) / total_costs m * 100))
           \<and> (total_costs m = 0 \<longrightarrow>
                roi m = (if 0 < total_benefits m then PosInf else NaN))"
proof -
  define ra where
    "ra = of_int base_volume' * base_value' * revenue_factor template * revenue_lift_pct"
  define ca where
    "ca = of_int base_volume' * process_cost' * savings_factor template * cost_savings_pct"
  from amounts_nonneg [OF valid] have ra: "0 \<le> ra" and ca: "0 \<le> ca"
    unfolding ra_def ca_def .
  from calculate_financials_rows [OF valid_input_discount [OF valid] ra_def ca_def am,
        where th = time_horizon]
  obtain df m where run: "calculate_financials template initial_investment annual_maintenance_pct
                   revenue_lift_pct cost_savings_pct discount_rate time_horizon
                   base_volume' base_value' process_cost' = Inr (df, m)"
    and m: "m = \<lparr> npv = sum_list (map discounted_cf df),
                   roi = np_mul (np_truediv (sum_list (map operational_benefit df)
                       - (initial_investment + annual_maintenance * of_int time_horizon))
                       (initial_investment + annual_maintenance * of_int time_horizon)) 100,
                   payback = payback_loop df (enumerate 0 df),
                   total_benefits = sum_list (map operational_benefit df),
                   total_costs = initial_investment + annual_maintenance * of_int time_horizon \<rparr>"
    and len: "length df = Suc (nat time_horizon)"
    and r0: "df ! 0 = \<lparr> year = 0, investment_cost = initial_investment, maintenance_cost = 0,
                        revenue_lift = ra * 0.15, cost_savings = ca * 0.15,
                        operational_benefit = (ra + ca) * 0.15,
                        net_cash_flow = (ra + ca) * 0.15 - initial_investment,
                        cumulative_cf = (ra + ca) * 0.15 - initial_investment,
                        discounted_cf = (ra + ca) * 0.15 - initial_investment \<rparr>"
    and rows: "\<forall>i. 1 \<le> i \<and> i \<le> nat time_horizon \<longrightarrow> df ! i =
                \<lparr> year = int i, investment_cost = 0, maintenance_cost = annual_maintenance,
                  revenue_lift = ra * ramp_factor (int i) * growth_factor (int i),
                  cost_savings = ca * ramp_factor (int i) * growth_factor (int i),
                  operational_benefit = ra * ramp_factor (int i) * growth_factor (int i)
                                        + ca * ramp_factor (int i) * growth_factor (int i),
                  net_cash_flow = ra * ramp_factor (int i) * growth_factor (int i)
                                  + ca * ramp_factor (int i) * growth_factor (int i)
                                  - annual_maintenance,
                  cumulative_cf = cumulative_cf (df ! (i - 1))
                                  + (ra * ramp_factor (int i) * growth_factor (int i)
                                     + ca * ramp_factor (int i) * growth_factor (int i)
                                     - annual_maintenance),
                  discounted_cf = (ra * ramp_factor (int i) * growth_factor (int i)
                                   + ca * ramp_factor (int i) * growth_factor (int i)
                                   - annual_maintenance)
                                  / (1 + discount_rate) ^ i \<rparr>"
    by blast
  have tb: "total_benefits m = (\<Sum>y = 0..nat time_horizon. operational_benefit (df ! y))"
    unfolding m using sum_list_column [OF len, of operational_benefit] by simp
  have tc: "total_costs m = initial_investment + annual_maintenance * of_int time_horizon"
    unfolding m by simp
  have roi: "roi m = np_mul (np_truediv (total_benefits m - total_costs m) (total_costs m)) 100"
    unfolding m by simp
  have "0 \<le> operational_benefit (df ! y)" if "y \<in> {0..nat time_horizon}" for y
  proof (cases "y = 0")
    case True
    with ra ca show ?thesis by (simp add: r0)
  next
    case False
    with that have y: "1 \<le> y \<and> y \<le> nat time_horizon" by simp
    then have "0 \<le> ramp_factor (int y)" "0 \<le> growth_factor (int y)"
      by (simp_all add: ramp_factor_nonneg growth_factor_nonneg)
    with ra ca have "0 \<le> ra * ramp_factor (int y) * growth_factor (int y)
                        + ca * ramp_factor (int y) * growth_factor (int y)"
      by (intro add_nonneg_nonneg mult_nonneg_nonneg)
    with rows y show ?thesis by simp
  qed
  then have nonneg: "0 \<le> total_benefits m" unfolding tb by (rule sum_nonneg)
  have finite: "roi m = Finite ((total_benefits m - total_costs m) / total_costs m * 100)"
    if "total_costs m \<noteq> 0"
    using that unfolding roi by (simp add: np_truediv_def)
  have special: "roi m = (if 0 < total_benefits m then PosInf else NaN)"
    if "total_costs m = 0"
    using that nonneg unfolding roi by (simp add: np_truediv_def)
  from run tb tc finite special show ?thesis by blast
qed

lemma run_without_investment:
  "calculate_financials order_management 0 0.20 0.18 0.25 0.08 1 50000 2500 85 =
     Inr ([\<lparr>year = 0, investment_cost = 0, maintenance_cost = 0,
             revenue_lift = 2193750, cost_savings = 223125 / 4,
             operational_benefit = 8998125 / 4, net_cash_flow = 8998125 / 4,
             cumulative_cf = 8998125 / 4, discounted_cf = 8998125 / 4\<rparr>,
           \<lparr>year = 1, investment_cost = 0, maintenance_cost = 0,
             revenue_lift = 10968750, cost_savings = 1115625 / 4,
             operational_benefit = 44990625 / 4, net_cash_flow = 44990625 / 4,
             cumulative_cf = 26994375 / 2, discounted_cf = 374921875 / 36\<rparr>],
          \<lparr>npv = 113976250 / 9, roi = PosInf, payback = Num (Finite 0),
             total_benefits = 26994375 / 2, total_costs = 0\<rparr>)"
  by (simp add: calculate_financials_def order_management_def py_truediv_def np_truediv_def
       Let_def upto.simps ramp_factor_def growth_factor_def enumerate_eq_zip)

theorem roi_metrics_witness:
  "valid_input order_management 500000 0.20 0.18 0.25 0.08 5 50000 2500 85
   \<and> (\<exists>df m. calculate_financials order_management 500000 0.20 0.18 0.25 0.08 5 50000 2500 85
                = Inr (df, m)
              \<and> total_costs m = 1000000
              \<and> roi m = Finite ((total_benefits m - 1000000) / 1000000 * 100))
   \<and> valid_input order_management 0 0.20 0.18 0.25 0.08 1 50000 2500 85
   \<and> (\<exists>df m. calculate_financials order_management 0 0.20 0.18 0.25 0.08 1 50000 2500 85
                = Inr (df, m)
              \<and> total_costs m = 0 \<and> 0 < total_benefits m \<and> roi m = PosInf)"
proof -
  have v: "valid_input order_management 500000 0.20 0.18 0.25 0.08 5 50000 2500 85"
    by (simp add: valid_input_def order_management_def)
  have v0: "valid_input order_management 0 0.20 0.18 0.25 0.08 1 50000 2500 85"
    by (simp add: valid_input_def order_management_def)
  from roi_metrics [OF v refl]
  have a: "\<exists>df m. calculate_financials order_management 500000 0.20 0.18 0.25 0.08 5 50000 2500 85
                = Inr (df, m)
              \<and> total_costs m = 1000000
              \<and> roi m = Finite ((total_benefits m - 1000000) / 1000000 * 100)"
    by auto
  from roi_metrics [OF v0 refl]
  obtain df m where run: "calculate_financials order_management 0 0.20 0.18 0.25 0.08 1 50000 2500 85
                = Inr (df, m)"
    and tc: "total_costs m = 0"
    and special: "total_costs m = 0 \<longrightarrow> roi m = (if 0 < total_benefits m then PosInf else NaN)"
    by auto
  from run have "total_benefits m = 26994375 / 2"
    unfolding run_without_investment by auto
  with tc special have "total_costs m = 0 \<and> 0 < total_benefits m \<and> roi m = PosInf" by simp
  with run have b: "\<exists>df m. calculate_financials order_management 0 0.20 0.18 0.25 0.08 1 50000 2500 85
                = Inr (df, m)
              \<and> total_costs m = 0 \<and> 0 < total_benefits m \<and> roi m = PosInf"
    by blast
  from v a v0 b show ?thesis by blast
qed

text \<open>
  A valid input without investment and without benefits: the return on investment is
  NaN, which is no number, no infinity and no value that the engine chose.
\<close>

theorem roi_undefined_counterexample:
  "valid_input order_management 0 0.20 0 0 0.08 1 50000 2500 85
   \<and> calculate_financials order_management 0 0.20 0 0 0.08 1 50000 2500 85 =
       Inr ([\<lparr>year = 0, investment_cost = 0, maintenance_cost = 0,
               revenue_lift = 0, cost_savings = 0, operational_benefit = 0,
               net_cash_flow = 0, cumulative_cf = 0, discounted_cf = 0\<rparr>,
             \<lparr>year = 1, investment_cost = 0, maintenance_cost = 0,
               revenue_lift = 0, cost_savings = 0, operational_benefit = 0,
               net_cash_flow = 0, cumulative_cf = 0, discounted_cf = 0\<rparr>],
            \<lparr>npv = 0, roi = NaN, payback = Str ''N/A'',
               total_benefits = 0, total_costs = 0\<rparr>)"
  by (simp add: valid_input_def calculate_financials_def order_management_def py_truediv_def
       np_truediv_def Let_def upto.simps ramp_factor_def growth_factor_def enumerate_eq_zip)

text \<open>
  Claim C5, as amended. The engine validates nothing. With \<open>time_horizon = 0\<close> the loop
  over \<^verbatim>\<open>range(1, 1)\<close> does not run and the engine returns, for every other argument,
  the ledger holding the year-0 record alone and the metrics computed from this one row.
\<close>

theorem horizon_zero_one_row:
  assumes rla: "revenue_lift_amount =
                of_int base_volume' * base_value' * revenue_factor template * revenue_lift_pct"
    and csa: "cost_savings_amount =
                of_int base_volume' * process_cost' * savings_factor template * cost_savings_pct"
    and net: "year0_net = (revenue_lift_amount + cost_savings_amount) * 0.15 - initial_investment"
  shows "calculate_financials template initial_investment annual_maintenance_pct
           revenue_lift_pct cost_savings_pct discount_rate 0
           base_volume' base_value' process_cost' =
         Inr ([\<lparr> year = 0, investment_cost = initial_investment, maintenance_cost = 0,
                 revenue_lift = revenue_lift_amount * 0.15,
                 cost_savings = cost_savings_amount * 0.15,
                 operational_benefit = (revenue_lift_amount + cost_savings_amount) * 0.15,
                 net_cash_flow = year0_net,
                 cumulative_cf = year0_net,
                 discounted_cf = year0_net \<rparr>],
              \<lparr> npv = year0_net,
                roi = np_mul (np_truediv ((revenue_lift_amount + cost_savings_amount) * 0.15
                                            - initial_investment) initial_investment) 100,
                payback = (if 0 < year0_net then Num (Finite 0) else Str ''N/A''),
                total_benefits = (revenue_lift_amount + cost_savings_amount) * 0.15,
                total_costs = initial_investment \<rparr>)"
  unfolding rla csa net
  by (simp add: calculate_financials_def py_truediv_def Let_def enumerate_eq_zip)

theorem horizon_zero_one_row_witness:
  "calculate_financials order_management 0 0.20 0 0 (- 1) 0 50000 2500 85 =
     Inr ([\<lparr> year = 0, investment_cost = 0, maintenance_cost = 0,
             revenue_lift = 0, cost_savings = 0, operational_benefit = 0,
             net_cash_flow = 0, cumulative_cf = 0, discounted_cf = 0 \<rparr>],
          \<lparr> npv = 0, roi = NaN, payback = Str ''N/A'',
            total_benefits = 0, total_costs = 0 \<rparr>)"
  using horizon_zero_one_row
    [where template = order_management and initial_investment = 0
       and annual_maintenance_pct = "0.20" and revenue_lift_pct = 0 and cost_savings_pct = 0
       and discount_rate = "- 1" and base_volume' = 50000 and base_value' = 2500
       and process_cost' = 85, OF refl refl refl]
  by (simp add: np_truediv_def)

text \<open>
  The order-management scenario with a horizon of zero returns a one-row ledger and its
  metrics; no error is raised.
\<close>

theorem horizon_zero_counterexample:
  "calculate_financials order_management 500000 0.20 0.18 0.25 0.08 0 50000 2500 85 =
     Inr ([\<lparr>year = 0, investment_cost = 500000, maintenance_cost = 0,
             revenue_lift = 2193750, cost_savings = 223125 / 4,
             operational_benefit = 8998125 / 4, net_cash_flow = 6998125 / 4,
             cumulative_cf = 6998125 / 4, discounted_cf = 6998125 / 4\<rparr>],
          \<lparr>npv = 6998125 / 4, roi = Finite (11197 / 32), payback = Num (Finite 0),
             total_benefits = 8998125 / 4, total_costs = 500000\<rparr>)"
  by (simp add: calculate_financials_def order_management_def py_truediv_def np_truediv_def
       Let_def enumerate_eq_zip)

lemma run_crossing:
  "calculate_financials (order_management\<lparr>revenue_factor := 1\<rparr>) (760100 / 2413) 0.5 1 0
       0.08 3 1 (700000 / 2413) 85 =
     Inr ([\<lparr>year = 0, investment_cost = 760100 / 2413, maintenance_cost = 0,
             revenue_lift = 105000 / 2413, cost_savings = 0,
             operational_benefit = 105000 / 2413, net_cash_flow = - (655100 / 2413),
             cumulative_cf = - (655100 / 2413), discounted_cf = - (655100 / 2413)\<rparr>,
           \<lparr>year = 1, investment_cost = 0, maintenance_cost = 380050 / 2413,
             revenue_lift = 525000 / 2413, cost_savings = 0,
             operational_benefit = 525000 / 2413, net_cash_flow = 144950 / 2413,
             cumulative_cf = - (26850 / 127), discounted_cf = 3623750 / 65151\<rparr>,
           \<lparr>year = 2, investment_cost = 0, maintenance_cost = 380050 / 2413,
             revenue_lift = 648900 / 2413, cost_savings = 0,
             operational_benefit = 648900 / 2413, net_cash_flow = 14150 / 127,
             cumulative_cf = - 100, discounted_cf = 8843750 / 92583\<rparr>,
           \<lparr>year = 3, investment_cost = 0, maintenance_cost = 380050 / 2413,
             revenue_lift = 742000 / 2413, cost_savings = 0,
             operational_benefit = 742000 / 2413, net_cash_flow = 150,
             cumulative_cf = 50, discounted_cf = 781250 / 6561\<rparr>],
          \<lparr>npv = - (20102350 / 15831693), roi = Finite (48260 / 7601),
             payback = Num (Finite (8 / 3)), total_benefits = 2020900 / 2413,
             total_costs = 1900250 / 2413\<rparr>)"
  by (simp add: calculate_financials_def order_management_def py_truediv_def np_truediv_def
       Let_def upto.simps ramp_factor_def growth_factor_def enumerate_eq_zip
       power2_eq_square power3_eq_cube)

lemma run_without_benefit:
  "calculate_financials order_management 500000 0.20 0 0 0.08 1 50000 2500 85 =
     Inr ([\<lparr>year = 0, investment_cost = 500000, maintenance_cost = 0,
             revenue_lift = 0, cost_savings = 0, operational_benefit = 0,
             net_cash_flow = - 500000, cumulative_cf = - 500000,
             discounted_cf = - 500000\<rparr>,
           \<lparr>year = 1, investment_cost = 0, maintenance_cost = 100000,
             revenue_lift = 0, cost_savings = 0, operational_benefit = 0,
             net_cash_flow = - 100000, cumulative_cf = - 600000,
             discounted_cf = - (2500000 / 27)\<rparr>],
          \<lparr>npv = - (16000000 / 27), roi = Finite (- 100), payback = Str ''N/A'',
             total_benefits = 0, total_costs = 600000\<rparr>)"
  by (simp add: calculate_financials_def order_management_def py_truediv_def np_truediv_def
       Let_def upto.simps ramp_factor_def growth_factor_def enumerate_eq_zip)

text \<open>
  Claim C3. For every valid input the payback is decided by the first year \<open>y\<close> whose
  cumulative cash flow is positive: it is \<open>0\<close> when \<open>y = 0\<close>, and
  \<open>(y - 1) + |cumulative (y - 1)| / (cumulative y - cumulative (y - 1))\<close> when \<open>y \<ge> 1\<close>; when
  no year of the ledger has a positive cumulative cash flow it is the string \<^verbatim>\<open>N/A\<close>
  and no number. A first crossing from \<open>-100\<close> at year 2 to \<open>50\<close> at year 3 gives
  \<open>2 + 100 / 150\<close>.
\<close>

theorem payback_metric:
  assumes valid: "valid_input template initial_investment annual_maintenance_pct revenue_lift_pct
                    cost_savings_pct discount_rate time_horizon base_volume' base_value' process_cost'"
  shows "\<exists>df m. calculate_financials template initial_investment annual_maintenance_pct
                   revenue_lift_pct cost_savings_pct discount_rate time_horizon
                   base_volume' base_value' process_cost' = Inr (df, m)
           \<and> length df = Suc (nat time_horizon)
           \<and> (\<forall>y. y < length df \<and> 0 < cumulative_cf (df ! y)
                    \<and> (\<forall>j<y. cumulative_cf (df ! j) \<le> 0) \<longrightarrow>
                  payback m =
                    (if y = 0 then Num (Finite 0)
                     else Num (Finite (of_nat (y - 1)
                            + \<bar>cumulative_cf (df ! (y - 1))\<bar>
                                / (cumulative_cf (df ! y) - cumulative_cf (df ! (y - 1)))))))
           \<and> ((\<forall>y<length df. cumulative_cf (df ! y) \<le> 0) \<longrightarrow> payback m = Str ''N/A'')
           \<and> (3 < length df \<and> (\<forall>j<3. cumulative_cf (df ! j) \<le> 0)
                 \<and> cumulative_cf (df ! 2) = - 100 \<and> cumulative_cf (df ! 3) = 50 \<longrightarrow>
               payback m = Num (Finite (2 + 100 / 150)))"
proof -
  from calculate_financials_rows [OF valid_input_discount [OF valid] refl refl refl,
        where th = time_horizon]
  obtain df m where run: "calculate_financials template initial_investment annual_maintenance_pct
                   revenue_lift_pct cost_savings_pct discount_rate time_horizon
                   base_volume' base_value' process_cost' = Inr (df, m)"
    and pb: "payback m = payback_loop df (enumerate 0 df)"
    and len: "length df = Suc (nat time_horizon)"
    by (metis (no_types, lifting) metrics.select_convs(3))
  have first: "payback m =
                    (if y = 0 then Num (Finite 0)
                     else Num (Finite (of_nat (y - 1)
                            + \<bar>cumulative_cf (df ! (y - 1))\<bar>
                                / (cumulative_cf (df ! y) - cumulative_cf (df ! (y - 1))))))"
    if "y < length df \<and> 0 < cumulative_cf (df ! y) \<and> (\<forall>j<y. cumulative_cf (df ! j) \<le> 0)"
    for y
    unfolding pb using that by (intro payback_first_positive) simp_all
  have never: "payback m = Str ''N/A''" if "\<forall>y<length df. cumulative_cf (df ! y) \<le> 0"
    unfolding pb using that by (intro payback_loop_none) (auto simp: in_set_conv_nth)
  have example: "payback m = Num (Finite (2 + 100 / 150))"
    if "3 < length df \<and> (\<forall>j<3. cumulative_cf (df ! j) \<le> 0)
          \<and> cumulative_cf (df ! 2) = - 100 \<and> cumulative_cf (df ! 3) = 50"
  proof -
    from that have "3 < length df \<and> 0 < cumulative_cf (df ! 3)
                      \<and> (\<forall>j<3. cumulative_cf (df ! j) \<le> 0)"
      by simp
    from first [OF this] that show ?thesis by simp
  qed
  from run len first never example show ?thesis by blast
qed

theorem payback_metric_witness:
  "valid_input (order_management\<lparr>revenue_factor := 1\<rparr>) (760100 / 2413) 0.5 1 0
       0.08 3 1 (700000 / 2413) 85
   \<and> (\<exists>df m. calculate_financials (order_management\<lparr>revenue_factor := 1\<rparr>) (760100 / 2413)
                  0.5 1 0 0.08 3 1 (700000 / 2413) 85 = Inr (df, m)
              \<and> cumulative_cf (df ! 0) \<le> 0 \<and> cumulative_cf (df ! 1) \<le> 0
              \<and> cumulative_cf (df ! 2) = - 100 \<and> cumulative_cf (df ! 3) = 50
              \<and> payback m = Num (Finite (2 + 100 / 150)))
   \<and> valid_input order_management 500000 0.20 0 0 0.08 1 50000 2500 85
   \<and> (\<exists>df m. calculate_financials order_management 500000 0.20 0 0 0.08 1 50000 2500 85
                = Inr (df, m)
              \<and> cumulative_cf (df ! 0) \<le> 0 \<and> cumulative_cf (df ! 1) \<le> 0
              \<and> payback m = Str ''N/A'')"
proof -
  have v: "valid_input (order_management\<lparr>revenue_factor := 1\<rparr>) (760100 / 2413) 0.5 1 0
             0.08 3 1 (700000 / 2413) 85"
    by (simp add: valid_input_def order_management_def)
  have v': "valid_input order_management 500000 0.20 0 0 0.08 1 50000 2500 85"
    by (simp add: valid_input_def order_management_def)
  from payback_metric [OF v]
  obtain df m where run: "calculate_financials (order_management\<lparr>revenue_factor := 1\<rparr>)
                  (760100 / 2413) 0.5 1 0 0.08 3 1 (700000 / 2413) 85 = Inr (df, m)"
    and len: "length df = Suc (nat 3)"
    and example: "3 < length df \<and> (\<forall>j<3. cumulative_cf (df ! j) \<le> 0)
                 \<and> cumulative_cf (df ! 2) = - 100 \<and> cumulative_cf (df ! 3) = 50 \<longrightarrow>
               payback m = Num (Finite (2 + 100 / 150))"
    by blast
  from run have cums: "cumulative_cf (df ! 0) = - (655100 / 2413)"
      "cumulative_cf (df ! 1) = - (26850 / 127)"
      "cumulative_cf (df ! 2) = - 100" "cumulative_cf (df ! 3) = 50"
    unfolding run_crossing by auto
  have "\<forall>j<3. cumulative_cf (df ! j) \<le> 0"
  proof (intro allI impI)
    fix j :: nat assume "j < 3"
    then have "j = 0 \<or> j = 1 \<or> j = 2" by arith
    with cums show "cumulative_cf (df ! j) \<le> 0" by auto
  qed
  with example len cums have "payback m = Num (Finite (2 + 100 / 150))" by simp
  with run cums have a: "\<exists>df m. calculate_financials (order_management\<lparr>revenue_factor := 1\<rparr>)
                  (760100 / 2413) 0.5 1 0 0.08 3 1 (700000 / 2413) 85 = Inr (df, m)
              \<and> cumulative_cf (df ! 0) \<le> 0 \<and> cumulative_cf (df ! 1) \<le> 0
              \<and> cumulative_cf (df ! 2) = - 100 \<and> cumulative_cf (df ! 3) = 50
              \<and> payback m = Num (Finite (2 + 100 / 150))"
    by (intro exI [of _ df] exI [of _ m]) simp
  from payback_metric [OF v']
  obtain df' m' where run': "calculate_financials order_management 500000 0.20 0 0 0.08 1
                  50000 2500 85 = Inr (df', m')"
    and len': "length df' = Suc (nat 1)"
    and never: "(\<forall>y<length df'. cumulative_cf (df' ! y) \<le> 0) \<longrightarrow> payback m' = Str ''N/A''"
    by blast
  from run' have cums': "cumulative_cf (df' ! 0) = - 500000" "cumulative_cf (df' ! 1) = - 600000"
    unfolding run_without_benefit by auto
  have "\<forall>y<length df'. cumulative_cf (df' ! y) \<le> 0"
  proof (intro allI impI)
    fix y assume "y < length df'"
    with len' have "y = 0 \<or> y = 1" by auto
    with cums' show "cumulative_cf (df' ! y) \<le> 0" by auto
  qed
  with never have "payback m' = Str ''N/A''" by blast
  with run' cums' have b: "\<exists>df m. calculate_financials order_management 500000 0.20 0 0 0.08 1
                  50000 2500 85 = Inr (df, m)
              \<and> cumulative_cf (df ! 0) \<le> 0 \<and> cumulative_cf (df ! 1) \<le> 0
              \<and> payback m = Str ''N/A''"
    by (intro exI [of _ df'] exI [of _ m']) simp
  from v a v' b show ?thesis by blast
qed

lemma payback_loop_finite:
  "payback_loop df (enumerate 0 df) = Str ''N/A''
   \<or> (\<exists>r. payback_loop df (enumerate 0 df) = Num (Finite r))"
proof (cases "\<exists>y<length df. 0 < cumulative_cf (df ! y)")
  case True
  then obtain y where y: "y < length df \<and> 0 < cumulative_cf (df ! y)" by blast
  define z where "z = (LEAST y. y < length df \<and> 0 < cumulative_cf (df ! y))"
  from y have z: "z < length df \<and> 0 < cumulative_cf (df ! z)"
    unfolding z_def by (rule LeastI)
  have "cumulative_cf (df ! j) \<le> 0" if "j < z" for j
  proof (rule ccontr)
    assume "\<not> cumulative_cf (df ! j) \<le> 0"
    with that z have "j < length df \<and> 0 < cumulative_cf (df ! j)" by simp
    then have "z \<le> j" unfolding z_def by (rule Least_le)
    with that show False by simp
  qed
  with z payback_first_positive [of z df] show ?thesis by (cases "z = 0") simp_all
next
  case False
  then have "\<forall>y<length df. cumulative_cf (df ! y) \<le> 0"
    by (meson not_less)
  then have "\<forall>r \<in> set df. cumulative_cf r \<le> 0"
    by (auto simp: in_set_conv_nth)
  then show ?thesis by (simp add: payback_loop_none)
qed

text \<open>
  Claim C10. The division of the payback interpolation is always defined. For every valid
  input, at the first year \<open>y \<ge> 1\<close> with a positive cumulative cash flow the year before
  has a cumulative cash flow of at most zero, so the divisor
  \<open>cumulative y - cumulative (y - 1)\<close> is positive and the quotient is finite; the payback
  is the string \<^verbatim>\<open>N/A\<close> or a finite number, never an infinity or a NaN.
\<close>

theorem payback_division_defined:
  assumes valid: "valid_input template initial_investment annual_maintenance_pct revenue_lift_pct
                    cost_savings_pct discount_rate time_horizon base_volume' base_value' process_cost'"
  shows "\<exists>df m. calculate_financials template initial_investment annual_maintenance_pct
                   revenue_lift_pct cost_savings_pct discount_rate time_horizon
                   base_volume' base_value' process_cost' = Inr (df, m)
           \<and> (\<forall>y. 1 \<le> y \<and> y < length df \<and> 0 < cumulative_cf (df ! y)
                    \<and> (\<forall>j<y. cumulative_cf (df ! j) \<le> 0) \<longrightarrow>
                  cumulative_cf (df ! (y - 1)) \<le> 0
                \<and> 0 < cumulative_cf (df ! y) - cumulative_cf (df ! (y - 1))
                \<and> np_truediv \<bar>cumulative_cf (df ! (y - 1))\<bar>
                     (cumulative_cf (df ! y) - cumulative_cf (df ! (y - 1)))
                   = Finite (\<bar>cumulative_cf (df ! (y - 1))\<bar>
                             / (cumulative_cf (df ! y) - cumulative_cf (df ! (y - 1)))))
           \<and> (payback m = Str ''N/A'' \<or> (\<exists>r. payback m = Num (Finite r)))"
proof -
  from calculate_financials_rows [OF valid_input_discount [OF valid] refl refl refl,
        where th = time_horizon]
  obtain df m where run: "calculate_financials template initial_investment annual_maintenance_pct
                   revenue_lift_pct cost_savings_pct discount_rate time_horizon
                   base_volume' base_value' process_cost' = Inr (df, m)"
    and pb: "payback m = payback_loop df (enumerate 0 df)"
    by (metis (no_types, lifting) metrics.select_convs(3))
  have divisor: "cumulative_cf (df ! (y - 1)) \<le> 0
                \<and> 0 < cumulative_cf (df ! y) - cumulative_cf (df ! (y - 1))
                \<and> np_truediv \<bar>cumulative_cf (df ! (y - 1))\<bar>
                     (cumulative_cf (df ! y) - cumulative_cf (df ! (y - 1)))
                   = Finite (\<bar>cumulative_cf (df ! (y - 1))\<bar>
                             / (cumulative_cf (df ! y) - cumulative_cf (df ! (y - 1))))"
    if y: "1 \<le> y \<and> y < length df \<and> 0 < cumulative_cf (df ! y)
             \<and> (\<forall>j<y. cumulative_cf (df ! j) \<le> 0)" for y
  proof -
    from y have "y - 1 < y" by simp
    with y have prev: "cumulative_cf (df ! (y - 1)) \<le> 0" by blast
    from y have "0 < cumulative_cf (df ! y)" by blast
    with prev have "0 < cumulative_cf (df ! y) - cumulative_cf (df ! (y - 1))" by simp
    with prev show ?thesis by (simp add: np_truediv_def)
  qed
  from payback_loop_finite [of df] pb
  have "payback m = Str ''N/A'' \<or> (\<exists>r. payback m = Num (Finite r))" by simp
  with run divisor show ?thesis by blast
qed

theorem payback_division_defined_witness:
  "valid_input (order_management\<lparr>revenue_factor := 1\<rparr>) (760100 / 2413) 0.5 1 0
       0.08 3 1 (700000 / 2413) 85
   \<and> (\<exists>df m. calculate_financials (order_management\<lparr>revenue_factor := 1\<rparr>) (760100 / 2413)
                  0.5 1 0 0.08 3 1 (700000 / 2413) 85 = Inr (df, m)
              \<and> cumulative_cf (df ! 2) \<le> 0
              \<and> cumulative_cf (df ! 3) - cumulative_cf (df ! 2) = 150
              \<and> np_truediv \<bar>cumulative_cf (df ! 2)\<bar>
                   (cumulative_cf (df ! 3) - cumulative_cf (df ! 2)) = Finite (100 / 150)
              \<and> payback m = Num (Finite (8 / 3)))"
proof -
  have v: "valid_input (order_management\<lparr>revenue_factor := 1\<rparr>) (760100 / 2413) 0.5 1 0
             0.08 3 1 (700000 / 2413) 85"
    by (simp add: valid_input_def order_management_def)
  from payback_division_defined [OF v]
  obtain df m where run: "calculate_financials (order_management\<lparr>revenue_factor := 1\<rparr>)
                  (760100 / 2413) 0.5 1 0 0.08 3 1 (700000 / 2413) 85 = Inr (df, m)"
    and divisor: "\<forall>y. 1 \<le> y \<and> y < length df \<and> 0 < cumulative_cf (df ! y)
                    \<and> (\<forall>j<y. cumulative_cf (df ! j) \<le> 0) \<longrightarrow>
                  cumulative_cf (df ! (y - 1)) \<le> 0
                \<and> 0 < cumulative_cf (df ! y) - cumulative_cf (df ! (y - 1))
                \<and> np_truediv \<bar>cumulative_cf (df ! (y - 1))\<bar>
                     (cumulative_cf (df ! y) - cumulative_cf (df ! (y - 1)))
                   = Finite (\<bar>cumulative_cf (df ! (y - 1))\<bar>
                             / (cumulative_cf (df ! y) - cumulative_cf (df ! (y - 1))))"
    by blast
  from run have facts: "length df = 4" "cumulative_cf (df ! 0) = - (655100 / 2413)"
      "cumulative_cf (df ! 1) = - (26850 / 127)"
      "cumulative_cf (df ! 2) = - 100" "cumulative_cf (df ! 3) = 50"
      "payback m = Num (Finite (8 / 3))"
    unfolding run_crossing by auto
  have "\<forall>j<3. cumulative_cf (df ! j) \<le> 0"
  proof (intro allI impI)
    fix j :: nat assume "j < 3"
    then have "j = 0 \<or> j = 1 \<or> j = 2" by arith
    with facts show "cumulative_cf (df ! j) \<le> 0" by auto
  qed
  with divisor [rule_format, of 3] facts
  have "cumulative_cf (df ! 2) \<le> 0
              \<and> cumulative_cf (df ! 3) - cumulative_cf (df ! 2) = 150
              \<and> np_truediv \<bar>cumulative_cf (df ! 2)\<bar>
                   (cumulative_cf (df ! 3) - cumulative_cf (df ! 2)) = Finite (100 / 150)"
    by simp
  with run facts v show ?thesis by blast
qed

end
